theory Spec2Isabelle
  imports Main
begin

section \<open>Calendar dates\<close>

text \<open>
  The teacher views build \<^verbatim>\<open>datetime.date(year, month, day)\<close> from the URL. The
  constructor of the standard library accepts a triple when the year is between
  \<^verbatim>\<open>MINYEAR = 1\<close> and \<^verbatim>\<open>MAXYEAR = 9999\<close>, the month between 1 and 12 and the
  day between 1 and the length of that month; otherwise it raises \<^verbatim>\<open>ValueError\<close>,
  or \<^verbatim>\<open>OverflowError\<close> when an argument does not fit a C \<^verbatim>\<open>int\<close>.
  An anonymous user has no \<^verbatim>\<open>get_local_today\<close>, which is an \<^verbatim>\<open>AttributeError\<close>.
\<close>

datatype error = ValueError | OverflowError | AttributeError

record date =
  date_year :: int
  date_month :: int
  date_day :: int

definition is_leap :: "int \<Rightarrow> bool" where
  "is_leap y = (y mod 4 = 0 \<and> (y mod 100 \<noteq> 0 \<or> y mod 400 = 0))"

definition days_in_month :: "int \<Rightarrow> int \<Rightarrow> int" where
  "days_in_month y m =
     (if m = 2 then (if is_leap y then 29 else 28)
      else if m = 4 \<or> m = 6 \<or> m = 9 \<or> m = 11 then 30
      else 31)"

definition valid_date :: "int \<Rightarrow> int \<Rightarrow> int \<Rightarrow> bool" where
  "valid_date y m dd =
     (1 \<le> y \<and> y \<le> 9999 \<and> 1 \<le> m \<and> m \<le> 12 \<and> 1 \<le> dd \<and> dd \<le> days_in_month y m)"

definition fits_c_int :: "int \<Rightarrow> bool" where
  "fits_c_int n = (- 2147483648 \<le> n \<and> n \<le> 2147483647)"

definition date_error :: "int \<Rightarrow> int \<Rightarrow> int \<Rightarrow> error" where
  "date_error y m dd =
     (if fits_c_int y \<and> fits_c_int m \<and> fits_c_int dd then ValueError else OverflowError)"

definition date_new :: "int \<Rightarrow> int \<Rightarrow> int \<Rightarrow> error + date" where
  "date_new y m dd =
     (if valid_date y m dd
      then Inr \<lparr>date_year = y, date_month = m, date_day = dd\<rparr>
      else Inl (date_error y m dd))"

definition date_le :: "date \<Rightarrow> date \<Rightarrow> bool" where
  "date_le a b =
     (date_year a < date_year b
      \<or> (date_year a = date_year b
          \<and> (date_month a < date_month b
              \<or> (date_month a = date_month b \<and> date_day a \<le> date_day b))))"

text \<open>
  Modelled from the spec: \<^verbatim>\<open>homeschool.core.schedules.Week\<close> is not in the sources.
  \<^verbatim>\<open>Week(week_day)\<close> is the week of the day it is built from.
\<close>

datatype week = Week date

section \<open>Rows and the database\<close>

text \<open>
  The rows of the students application have the columns of migration 0001, a foreign key
  being the primary key of the row it points to.
\<close>

record student =
  student_id :: nat
  first_name :: string
  last_name :: string
  student_school :: nat

record enrollment =
  enrollment_id :: nat
  enrollment_grade_level :: nat
  enrollment_student :: nat

record coursework =
  coursework_id :: nat
  completed_date :: date
  coursework_course_task :: nat
  coursework_student :: nat

text \<open>
  Modelled from the spec: the models of the users, schools, courses and teachers
  applications and the grade model are not in the sources. Their rows carry the columns the
  views and the tests read. All entities are scoped transitively to a school: a school year
  and a course task carry their school, a grade level its school year, graded work its
  course task, a checklist its school year and the courses it excludes.
\<close>

record user =
  user_id :: nat
  user_school :: nat

record school_year =
  sy_id :: nat
  sy_school :: nat
  sy_start_date :: date
  sy_end_date :: date

record grade_level =
  gl_id :: nat
  gl_school_year :: nat

record course_task =
  ct_id :: nat
  ct_school :: nat

record graded_work =
  gw_id :: nat
  gw_course_task :: nat

record grade =
  grade_student :: nat
  grade_graded_work :: nat

record checklist_row =
  cl_school_year :: nat
  cl_excluded_courses :: "nat list"

record db =
  school_years :: "school_year list"
  grade_levels :: "grade_level list"
  course_tasks :: "course_task list"
  graded_works :: "graded_work list"
  students :: "student list"
  enrollments :: "enrollment list"
  courseworks :: "coursework list"
  grades :: "grade list"
  checklists :: "checklist_row list"

section \<open>Requests and responses\<close>

text \<open>
  A request carries its user (none when anonymous), its method and the posted course keys.
  A response is a rendered template with its context (status 200), a redirect (302), a
  404 or a 403, as the framework's \<^verbatim>\<open>render\<close>, \<^verbatim>\<open>redirect\<close>,
  \<^verbatim>\<open>HttpResponseNotFound\<close> and \<^verbatim>\<open>HttpResponseForbidden\<close> build them. A schedule
  lists, for one student, the courses planned in a week.
\<close>

record course_info =
  ci_course :: nat
  ci_tasks :: "nat list"

record schedule =
  sched_student :: nat
  sched_courses :: "course_info list"

record request =
  req_user :: "user option"
  req_method :: string
  req_POST :: "nat list"

datatype arg = IntArg int | IdArg nat

datatype url = Resolved string "(string \<times> arg) list" | Login

datatype ctx_value =
    Schedules "schedule list"
  | WeekV week
  | ChecklistV "checklist_row option"
  | StudentV student
  | StudentsV "student list"
  | GradeLevelsV "grade_level list"
  | SchoolYearV school_year
  | CourseTaskV course_task
  | RosterV "(student \<times> enrollment option) list"
  | WorkToGradeV "(student \<times> graded_work list) list"
  | FormErrors "string list"
  | TextV string
  | BoolV bool
  | SchoolYearOptV "school_year option"

type_synonym ctx = "(string \<times> ctx_value) list"

datatype response =
    Render string ctx
  | Redirect url
  | HttpResponseNotFound
  | HttpResponseForbidden

definition render :: "string \<Rightarrow> ctx \<Rightarrow> response" where
  "render template ctx = Render template ctx"

definition redirect :: "url \<Rightarrow> response" where
  "redirect to = Redirect to"

definition resolve_url :: "string \<Rightarrow> (string \<times> arg) list \<Rightarrow> url" where
  "resolve_url name kwargs = Resolved name kwargs"

fun status_code :: "response \<Rightarrow> nat" where
  "status_code (Render _ _) = 200"
| "status_code (Redirect _) = 302"
| "status_code HttpResponseNotFound = 404"
| "status_code HttpResponseForbidden = 403"


section \<open>Collaborators of the teacher views\<close>

text \<open>
  The scheduling module, the user's clock and the checklist form are outside the
  sources; the views receive them as an environment.
\<close>

record env =
  get_local_today :: "user \<Rightarrow> date"
  get_schedules :: "school_year \<Rightarrow> date \<Rightarrow> week \<Rightarrow> schedule list"
  form_is_valid :: "nat list \<Rightarrow> school_year \<Rightarrow> bool"
  form_save :: "nat list \<Rightarrow> school_year \<Rightarrow> db \<Rightarrow> db"

definition covers :: "school_year \<Rightarrow> date \<Rightarrow> bool" where
  "covers sy day = (date_le (sy_start_date sy) day \<and> date_le day (sy_end_date sy))"

text \<open>
  Modelled from the spec: \<^verbatim>\<open>SchoolYear.get_year_for(user, day)\<close> of the schools
  application is not in the sources. It is the first school year of the user's school that
  covers the day, and \<^verbatim>\<open>None\<close> when there is none.
\<close>

definition get_year_for :: "db \<Rightarrow> user \<Rightarrow> date \<Rightarrow> school_year option" where
  "get_year_for d u day =
     find (\<lambda>sy. sy_school sy = user_school u \<and> covers sy day) (school_years d)"

text \<open>
  Modelled from the spec: \<^verbatim>\<open>Checklist.for_school_year\<close> and
  \<^verbatim>\<open>Checklist.filter_schedules\<close> of the teachers' models are not in the sources. A
  checklist is scoped to a school year and marks the courses excluded from the teacher
  checklist view; filtering drops the excluded courses from every schedule, in place.
\<close>

definition for_school_year :: "db \<Rightarrow> school_year \<Rightarrow> checklist_row option" where
  "for_school_year d sy = find (\<lambda>c. cl_school_year c = sy_id sy) (checklists d)"

definition filter_schedules :: "db \<Rightarrow> school_year \<Rightarrow> schedule list \<Rightarrow> schedule list" where
  "filter_schedules d sy schedules =
     (case for_school_year d sy of
        None \<Rightarrow> schedules
      | Some c \<Rightarrow>
          map (\<lambda>s. s\<lparr>sched_courses :=
                 filter (\<lambda>ci. ci_course ci \<notin> set (cl_excluded_courses c)) (sched_courses s)\<rparr>)
            schedules)"

section \<open>The teacher views\<close>

definition checklist :: "env \<Rightarrow> db \<Rightarrow> request \<Rightarrow> int \<Rightarrow> int \<Rightarrow> int \<Rightarrow> error + response \<times> db" where
  "checklist E d request year month day =
     (case req_user request of
        None \<Rightarrow> Inl AttributeError
      | Some u \<Rightarrow>
          (let today = get_local_today E u in
           case date_new year month day of
             Inl e \<Rightarrow> Inl e
           | Inr week_day \<Rightarrow>
               (let week = Week week_day;
                    school_year = get_year_for d u week_day;
                    schedules =
                      (case school_year of
                         None \<Rightarrow> []
                       | Some sy \<Rightarrow> filter_schedules d sy (get_schedules E sy today week))
                in Inr (render ''teachers/checklist.html''
                          [(''schedules'', Schedules schedules), (''week'', WeekV week)], d))))"

definition edit_checklist :: "env \<Rightarrow> db \<Rightarrow> request \<Rightarrow> int \<Rightarrow> int \<Rightarrow> int \<Rightarrow> error + response \<times> db" where
  "edit_checklist E d request year month day =
     (case req_user request of
        None \<Rightarrow> Inl AttributeError
      | Some u \<Rightarrow>
          (let today = get_local_today E u in
           case date_new year month day of
             Inl e \<Rightarrow> Inl e
           | Inr week_day \<Rightarrow>
               (let week = Week week_day in
                case get_year_for d u week_day of
                  None \<Rightarrow> Inr (HttpResponseNotFound, d)
                | Some school_year \<Rightarrow>
                    if req_method request = ''POST''
                       \<and> form_is_valid E (req_POST request) school_year
                    then Inr (redirect (resolve_url ''teachers:checklist''
                                [(''year'', IntArg year), (''month'', IntArg month),
                                 (''day'', IntArg day)]),
                              form_save E (req_POST request) school_year d)
                    else
                      (let schedules = get_schedules E school_year today week
                       in Inr (render ''teachers/edit_checklist.html''
                                 [(''checklist'', ChecklistV (for_school_year d school_year)),
                                  (''schedules'', Schedules schedules),
                                  (''week'', WeekV week)], d)))))"

section \<open>Migration 0001 of the students application\<close>

text \<open>
  The migration is data: a list of \<^verbatim>\<open>CreateModel\<close> operations, each with a name, its
  fields in order and its options. A field carries the keyword arguments the migration
  writes.
\<close>

datatype on_delete = CASCADE | DO_NOTHING

datatype field =
    AutoField bool bool bool string
  | CharField nat
  | DateField bool
  | ForeignKey on_delete string

datatype option_value = TextOption string | FieldSets "string list list"

record create_model =
  cm_name :: string
  cm_fields :: "(string \<times> field) list"
  cm_options :: "(string \<times> option_value) list"

record migration =
  initial :: bool
  dependencies :: "(string \<times> string) list"
  operations :: "create_model list"

definition auto_id :: field where
  "auto_id = AutoField True True False ''ID''"

definition migration_0001 :: migration where
  "migration_0001 =
     \<lparr>initial = True,
      dependencies = [(''courses'', ''0001_initial''), (''schools'', ''0001_initial'')],
      operations =
        [\<lparr>cm_name = ''Student'',
          cm_fields =
            [(''id'', auto_id),
             (''first_name'', CharField 64),
             (''last_name'', CharField 64),
             (''school'', ForeignKey CASCADE ''schools.School'')],
          cm_options = []\<rparr>,
         \<lparr>cm_name = ''Enrollment'',
          cm_fields =
            [(''id'', auto_id),
             (''grade_level'', ForeignKey CASCADE ''schools.GradeLevel''),
             (''student'', ForeignKey CASCADE ''students.Student'')],
          cm_options = []\<rparr>,
         \<lparr>cm_name = ''Coursework'',
          cm_fields =
            [(''id'', auto_id),
             (''completed_date'', DateField True),
             (''course_task'', ForeignKey CASCADE ''courses.CourseTask''),
             (''student'', ForeignKey CASCADE ''students.Student'')],
          cm_options = [(''verbose_name_plural'', TextOption ''coursework'')]\<rparr>]\<rparr>"

definition find_model :: "migration \<Rightarrow> string \<Rightarrow> create_model option" where
  "find_model mg name = find (\<lambda>m. cm_name m = name) (operations mg)"

fun is_primary_key :: "field \<Rightarrow> bool" where
  "is_primary_key (AutoField _ pk _ _) = pk"
| "is_primary_key _ = False"

fun is_foreign_key :: "field \<Rightarrow> bool" where
  "is_foreign_key (ForeignKey _ _) = True"
| "is_foreign_key _ = False"

text \<open>The columns of a table next to its automatic primary key.\<close>

definition data_fields :: "create_model \<Rightarrow> (string \<times> field) list" where
  "data_fields m = filter (\<lambda>nf. \<not> is_primary_key (snd nf)) (cm_fields m)"

subsection \<open>Rows and the uniqueness a table enforces\<close>

datatype cell = IntCell int | TextCell string | DateCell date

type_synonym row = "(string \<times> cell) list"

text \<open>
  No field of the migration passes \<^verbatim>\<open>unique=True\<close>, so a column is unique exactly when
  it is the primary key. A table also enforces the field sets of a
  \<^verbatim>\<open>unique_together\<close> option, when it has one.
\<close>

definition unique_sets :: "create_model \<Rightarrow> string list list" where
  "unique_sets m =
     map (\<lambda>nf. [fst nf]) (filter (\<lambda>nf. is_primary_key (snd nf)) (cm_fields m))
     @ (case map_of (cm_options m) ''unique_together'' of
          Some (FieldSets fs) \<Rightarrow> fs
        | _ \<Rightarrow> [])"

definition project :: "string list \<Rightarrow> row \<Rightarrow> cell option list" where
  "project cols r = map (map_of r) cols"

definition admissible :: "create_model \<Rightarrow> row list \<Rightarrow> bool" where
  "admissible m rows = list_all (\<lambda>cols. distinct (map (project cols) rows)) (unique_sets m)"

definition enrollment_row :: "enrollment \<Rightarrow> row" where
  "enrollment_row e =
     [(''id'', IntCell (int (enrollment_id e))),
      (''grade_level'', IntCell (int (enrollment_grade_level e))),
      (''student'', IntCell (int (enrollment_student e)))]"

subsection \<open>Deletion\<close>

text \<open>
  A store holds the rows of every table under the label of their model
  (\<^verbatim>\<open>students.Student\<close>, \<^verbatim>\<open>schools.School\<close>, ...). Deleting a row collects the rows
  that point to it through a cascading foreign key, then the rows that point to those, and
  removes all of them. The models of this migration carry the label of the students
  application.
\<close>

type_synonym store = "(string \<times> row) list"

type_synonym key = "string \<times> cell option"

definition app_label :: string where
  "app_label = ''students''"

definition fields_of :: "migration \<Rightarrow> string \<Rightarrow> (string \<times> field) list" where
  "fields_of mg label =
     concat (map cm_fields
       (filter (\<lambda>m. app_label @ ''.'' @ cm_name m = label) (operations mg)))"

definition key_of :: "string \<times> row \<Rightarrow> key" where
  "key_of e = (fst e, map_of (snd e) ''id'')"

fun cascades_to :: "row \<Rightarrow> key \<Rightarrow> string \<times> field \<Rightarrow> bool" where
  "cascades_to r k (n, ForeignKey CASCADE target) =
     (target = fst k \<and> snd k \<noteq> None \<and> map_of r n = snd k)"
| "cascades_to r k _ = False"

definition refers :: "migration \<Rightarrow> string \<times> row \<Rightarrow> key \<Rightarrow> bool" where
  "refers mg e k = list_ex (cascades_to (snd e) k) (fields_of mg (fst e))"

definition pending :: "migration \<Rightarrow> store \<Rightarrow> key list \<Rightarrow> (string \<times> row) list" where
  "pending mg st acc =
     filter (\<lambda>e. key_of e \<notin> set acc \<and> list_ex (refers mg e) acc) st"

lemma length_filter_mono:
  "(\<And>y. Q y \<Longrightarrow> P y) \<Longrightarrow> length (filter Q xs) \<le> length (filter P xs)"
  by (induction xs) auto

lemma length_filter_strict:
  assumes "x \<in> set xs" and "P x" and "\<not> Q x" and imp: "\<And>y. Q y \<Longrightarrow> P y"
  shows "length (filter Q xs) < length (filter P xs)"
  using assms(1)
proof (induction xs)
  case Nil
  then show ?case by simp
next
  case (Cons a xs)
  have le: "length (filter Q xs) \<le> length (filter P xs)"
    using imp by (rule length_filter_mono)
  show ?case
  proof (cases "a = x")
    case True
    then show ?thesis using assms(2,3) le by simp
  next
    case False
    then have "length (filter Q xs) < length (filter P xs)"
      using Cons by simp
    then show ?thesis using imp by auto
  qed
qed

lemma pending_shrinks:
  assumes "pending mg st acc \<noteq> []"
  shows "length (filter (\<lambda>e. key_of e \<notin> set (acc @ map key_of (pending mg st acc))) st)
           < length (filter (\<lambda>e. key_of e \<notin> set acc) st)"
proof -
  obtain e where e: "e \<in> set (pending mg st acc)"
    using assms by (cases "pending mg st acc") auto
  then have "e \<in> set st" and "key_of e \<notin> set acc"
    by (simp_all add: pending_def)
  moreover have "\<not> key_of e \<notin> set (acc @ map key_of (pending mg st acc))"
    using e by simp
  ultimately show ?thesis
    by (rule length_filter_strict) simp
qed

function collect :: "migration \<Rightarrow> store \<Rightarrow> key list \<Rightarrow> key list" where
  "collect mg st acc =
     (if pending mg st acc = [] then acc
      else collect mg st (acc @ map key_of (pending mg st acc)))"
  by pat_completeness auto
termination
proof (relation "measure (\<lambda>(mg, st, acc). length (filter (\<lambda>e. key_of e \<notin> set acc) st))")
  show "wf (measure (\<lambda>(mg, st, acc). length (filter (\<lambda>e. key_of e \<notin> set acc) st)))"
    by simp
next
  fix mg :: migration and st :: store and acc :: "key list"
  assume "pending mg st acc \<noteq> []"
  then show "((mg, st, acc @ map key_of (pending mg st acc)), (mg, st, acc))
               \<in> measure (\<lambda>(mg, st, acc). length (filter (\<lambda>e. key_of e \<notin> set acc) st))"
    using pending_shrinks [of mg st acc] by simp
qed

declare collect.simps [simp del]

definition delete :: "migration \<Rightarrow> store \<Rightarrow> key \<Rightarrow> store" where
  "delete mg st k = filter (\<lambda>e. key_of e \<notin> set (collect mg st [k])) st"

section \<open>The login gate and the student views\<close>

text \<open>
  Modelled from the spec: the authorization gate (the \<^verbatim>\<open>authorize\<close> decorator of the
  \<^verbatim>\<open>denied\<close> package with its middleware) and the project's URL table are not in the
  sources. Every view validates that the requester is authenticated: an anonymous request
  is redirected to the login page and the view is not called; an authenticated request
  reaches the view when the authorizer accepts it. \<^verbatim>\<open>any_authorized\<close> accepts every
  request.
\<close>

type_synonym result = "error + response \<times> db \<times> string list"

type_synonym view = "db \<Rightarrow> request \<Rightarrow> result"

definition any_authorized :: "request \<Rightarrow> bool" where
  "any_authorized request = True"

definition authorize :: "(request \<Rightarrow> bool) \<Rightarrow> view \<Rightarrow> view" where
  "authorize authorizer v d request =
     (case req_user request of
        None \<Rightarrow> Inr (redirect Login, d, [])
      | Some u \<Rightarrow> if authorizer request then v d request else Inr (HttpResponseForbidden, d, []))"

definition no_messages :: "error + response \<times> db \<Rightarrow> result" where
  "no_messages r = (case r of Inl e \<Rightarrow> Inl e | Inr (resp, d) \<Rightarrow> Inr (resp, d, []))"

text \<open>
  Modelled from the spec: the views of the students application
  (\<^verbatim>\<open>students/views.py\<close>) are not in the sources; only their tests are. Each view
  fetches rows scoped to the school of the requesting user, answers 404 for a student,
  course task or school year that is missing or belongs to another school, and renders a
  template or redirects with a flash message. A row's primary key stands for its UUID.
\<close>

definition own_students :: "db \<Rightarrow> user \<Rightarrow> student list" where
  "own_students d u = filter (\<lambda>s. student_school s = user_school u) (students d)"

definition get_student :: "db \<Rightarrow> user \<Rightarrow> nat \<Rightarrow> student option" where
  "get_student d u uuid = find (\<lambda>s. student_id s = uuid) (own_students d u)"

definition get_course_task :: "db \<Rightarrow> user \<Rightarrow> nat \<Rightarrow> course_task option" where
  "get_course_task d u uuid =
     find (\<lambda>t. ct_id t = uuid \<and> ct_school t = user_school u) (course_tasks d)"

definition get_school_year :: "db \<Rightarrow> user \<Rightarrow> nat \<Rightarrow> school_year option" where
  "get_school_year d u uuid =
     find (\<lambda>y. sy_id y = uuid \<and> sy_school y = user_school u) (school_years d)"

definition year_grade_levels :: "db \<Rightarrow> school_year \<Rightarrow> grade_level list" where
  "year_grade_levels d y = filter (\<lambda>g. gl_school_year g = sy_id y) (grade_levels d)"

definition year_enrollment :: "db \<Rightarrow> school_year \<Rightarrow> student \<Rightarrow> enrollment option" where
  "year_enrollment d y s =
     find (\<lambda>e. enrollment_student e = student_id s
              \<and> enrollment_grade_level e \<in> set (map gl_id (year_grade_levels d y)))
       (enrollments d)"

definition roster :: "db \<Rightarrow> user \<Rightarrow> school_year option \<Rightarrow> (student \<times> enrollment option) list" where
  "roster d u school_year =
     map (\<lambda>s. (s, case school_year of None \<Rightarrow> None | Some y \<Rightarrow> year_enrollment d y s))
       (own_students d u)"

definition students_index :: "env \<Rightarrow> view" where
  "students_index E d request =
     (case req_user request of
        None \<Rightarrow> Inl AttributeError
      | Some u \<Rightarrow>
          (let school_year = get_year_for d u (get_local_today E u)
           in Inr (render ''students/index.html''
                     [(''nav_link'', TextV ''students''),
                      (''roster'', RosterV (roster d u school_year)),
                      (''school_year'', SchoolYearOptV school_year)], d, [])))"

definition own_task_ids :: "db \<Rightarrow> user \<Rightarrow> nat list" where
  "own_task_ids d u = map ct_id (filter (\<lambda>t. ct_school t = user_school u) (course_tasks d))"

definition has_coursework :: "db \<Rightarrow> student \<Rightarrow> graded_work \<Rightarrow> bool" where
  "has_coursework d s g =
     list_ex (\<lambda>c. coursework_student c = student_id s
                 \<and> coursework_course_task c = gw_course_task g) (courseworks d)"

definition has_grade :: "db \<Rightarrow> student \<Rightarrow> graded_work \<Rightarrow> bool" where
  "has_grade d s g =
     list_ex (\<lambda>r. grade_student r = student_id s \<and> grade_graded_work r = gw_id g) (grades d)"

definition work_to_grade :: "db \<Rightarrow> user \<Rightarrow> (student \<times> graded_work list) list" where
  "work_to_grade d u =
     map (\<lambda>s. (s, filter (\<lambda>g. gw_course_task g \<in> set (own_task_ids d u)
                             \<and> has_coursework d s g \<and> \<not> has_grade d s g)
                     (graded_works d)))
       (own_students d u)"

definition students_grade :: view where
  "students_grade d request =
     (case req_user request of
        None \<Rightarrow> Inl AttributeError
      | Some u \<Rightarrow>
          (let work = work_to_grade d u
           in Inr (render ''students/grade.html''
                     [(''work_to_grade'', WorkToGradeV work),
                      (''has_work_to_grade'', BoolV (list_ex (\<lambda>w. snd w \<noteq> []) work))],
                   d, [])))"

text \<open>
  Modelled from the spec: the views that take a student, a course or a course task from
  the URL are not in the sources. Each looks its rows up within the school of the user and
  answers 404 when one is missing; the grade-task view also answers 404 for a task that has
  no graded work. What follows the lookups depends on forms and on the scheduling module
  that the sources do not hold: the page of a course, and the POST of the coursework and
  grade forms, are parameters that receive the rows found.
\<close>

record bodies =
  students_create :: view
  course_body :: "student \<Rightarrow> nat \<Rightarrow> view"
  coursework_post :: "student \<Rightarrow> course_task \<Rightarrow> view"
  grade_task_post :: "student \<Rightarrow> course_task \<Rightarrow> graded_work \<Rightarrow> view"

definition students_course :: "bodies \<Rightarrow> nat \<Rightarrow> nat \<Rightarrow> view" where
  "students_course B uuid course_uuid d request =
     (case req_user request of
        None \<Rightarrow> Inl AttributeError
      | Some u \<Rightarrow>
          (case get_student d u uuid of
             None \<Rightarrow> Inr (HttpResponseNotFound, d, [])
           | Some s \<Rightarrow> course_body B s course_uuid d request))"

definition students_coursework :: "bodies \<Rightarrow> nat \<Rightarrow> nat \<Rightarrow> view" where
  "students_coursework B uuid course_task_uuid d request =
     (case req_user request of
        None \<Rightarrow> Inl AttributeError
      | Some u \<Rightarrow>
          (case get_student d u uuid of
             None \<Rightarrow> Inr (HttpResponseNotFound, d, [])
           | Some s \<Rightarrow>
               (case get_course_task d u course_task_uuid of
                  None \<Rightarrow> Inr (HttpResponseNotFound, d, [])
                | Some t \<Rightarrow>
                    if req_method request = ''POST'' then coursework_post B s t d request
                    else Inr (render ''students/coursework_form.html''
                                [(''student'', StudentV s), (''course_task'', CourseTaskV t)],
                              d, []))))"

definition students_grade_task :: "bodies \<Rightarrow> nat \<Rightarrow> nat \<Rightarrow> view" where
  "students_grade_task B uuid course_task_uuid d request =
     (case req_user request of
        None \<Rightarrow> Inl AttributeError
      | Some u \<Rightarrow>
          (case get_student d u uuid of
             None \<Rightarrow> Inr (HttpResponseNotFound, d, [])
           | Some s \<Rightarrow>
               (case get_course_task d u course_task_uuid of
                  None \<Rightarrow> Inr (HttpResponseNotFound, d, [])
                | Some t \<Rightarrow>
                    (case find (\<lambda>g. gw_course_task g = ct_id t) (graded_works d) of
                       None \<Rightarrow> Inr (HttpResponseNotFound, d, [])
                     | Some g \<Rightarrow>
                         if req_method request = ''POST''
                         then grade_task_post B s t g d request
                         else Inr (render ''students/grade_form.html''
                                     [(''student'', StudentV s),
                                      (''course_task'', CourseTaskV t)],
                                   d, [])))))"

text \<open>
  Modelled from the spec: the enrolment form and its two views are not in the sources. The
  form posts a student and a grade level. Its validation rejects a student of another
  school and a grade level of another school's year, each with one form-level error; a key
  that matches no row is not a valid choice. A valid POST saves the enrolment and redirects
  to the school year; an invalid one renders the page again with the form and its errors.
\<close>

record enrollment_post =
  post_student :: nat
  post_grade_level :: nat

definition own_grade_level :: "db \<Rightarrow> user \<Rightarrow> grade_level \<Rightarrow> bool" where
  "own_grade_level d u g =
     list_ex (\<lambda>y. sy_id y = gl_school_year g \<and> sy_school y = user_school u) (school_years d)"

definition enrollment_form_errors :: "db \<Rightarrow> user \<Rightarrow> enrollment_post \<Rightarrow> string list" where
  "enrollment_form_errors d u p =
     (case find (\<lambda>s. student_id s = post_student p) (students d) of
        None \<Rightarrow> [''Select a valid choice. That choice is not one of the available choices.'']
      | Some s \<Rightarrow>
          (case find (\<lambda>g. gl_id g = post_grade_level p) (grade_levels d) of
             None \<Rightarrow> [''Select a valid choice. That choice is not one of the available choices.'']
           | Some g \<Rightarrow>
               if student_school s \<noteq> user_school u then [''You may not enroll that student.'']
               else if \<not> own_grade_level d u g then [''You may not enroll to that grade level.'']
               else []))"

definition next_enrollment_id :: "db \<Rightarrow> nat" where
  "next_enrollment_id d = Suc (fold max (map enrollment_id (enrollments d)) 0)"

definition save_enrollment :: "db \<Rightarrow> enrollment_post \<Rightarrow> db" where
  "save_enrollment d p =
     d\<lparr>enrollments := enrollments d @
          [\<lparr>enrollment_id = next_enrollment_id d,
            enrollment_grade_level = post_grade_level p,
            enrollment_student = post_student p\<rparr>]\<rparr>"

definition posted_errors :: "db \<Rightarrow> user \<Rightarrow> request \<Rightarrow> enrollment_post \<Rightarrow> string list" where
  "posted_errors d u request p =
     (if req_method request = ''POST'' then enrollment_form_errors d u p else [])"

definition enrollable_students :: "db \<Rightarrow> user \<Rightarrow> school_year \<Rightarrow> student list" where
  "enrollable_students d u y =
     filter (\<lambda>s. year_enrollment d y s = None) (own_students d u)"

text \<open>
  The enrolment page of a school year first checks the state of the year, whatever the
  method: a year without grade levels, a school without students and a year in which every
  student is enrolled each redirect with a flash message. Then it handles the form.
\<close>

definition students_enrollment_create :: "nat \<Rightarrow> enrollment_post \<Rightarrow> view" where
  "students_enrollment_create school_year_uuid p d request =
     (case req_user request of
        None \<Rightarrow> Inl AttributeError
      | Some u \<Rightarrow>
          (case get_school_year d u school_year_uuid of
             None \<Rightarrow> Inr (HttpResponseNotFound, d, [])
           | Some y \<Rightarrow>
               if year_grade_levels d y = []
               then Inr (redirect (resolve_url ''schools:grade_level_create''
                                     [(''uuid'', IdArg (sy_id y))]), d,
                         [''You need to create a grade level for a student to enroll in.''])
               else if own_students d u = []
               then Inr (redirect (resolve_url ''students:index'' []), d,
                         [''You need to add a student to enroll.''])
               else if enrollable_students d u y = []
               then Inr (redirect (resolve_url ''schools:school_year_detail''
                                     [(''uuid'', IdArg (sy_id y))]), d,
                         [''All students are enrolled in the school year.''])
               else if req_method request = ''POST'' \<and> enrollment_form_errors d u p = []
               then Inr (redirect (resolve_url ''schools:school_year_detail''
                                     [(''uuid'', IdArg (sy_id y))]),
                         save_enrollment d p, [])
               else Inr (render ''students/enrollment_form.html''
                           [(''school_year'', SchoolYearV y),
                            (''grade_levels'', GradeLevelsV (year_grade_levels d y)),
                            (''students'', StudentsV (enrollable_students d u y)),
                            (''form'', FormErrors (posted_errors d u request p))],
                         d, [])))"

definition students_student_enrollment_create ::
    "nat \<Rightarrow> nat \<Rightarrow> enrollment_post \<Rightarrow> view" where
  "students_student_enrollment_create uuid school_year_uuid p d request =
     (case req_user request of
        None \<Rightarrow> Inl AttributeError
      | Some u \<Rightarrow>
          (case get_student d u uuid of
             None \<Rightarrow> Inr (HttpResponseNotFound, d, [])
           | Some s \<Rightarrow>
               (case get_school_year d u school_year_uuid of
                  None \<Rightarrow> Inr (HttpResponseNotFound, d, [])
                | Some y \<Rightarrow>
                    if req_method request = ''POST'' \<and> enrollment_form_errors d u p = []
                    then Inr (redirect (resolve_url ''schools:school_year_detail''
                                          [(''uuid'', IdArg (sy_id y))]),
                              save_enrollment d p, [])
                    else Inr (render ''students/enrollment_form.html''
                                [(''student'', StudentV s),
                                 (''school_year'', SchoolYearV y),
                                 (''grade_levels'', GradeLevelsV (year_grade_levels d y)),
                                 (''form'', FormErrors (posted_errors d u request p))],
                              d, []))))"

text \<open>
  Modelled from the spec: the URL tables are not in the sources. These are the routes of
  the two applications, each behind the gate, with the keys their URLs carry; the two
  enrolment routes also carry what the form posts.
\<close>

datatype route =
    StudentsIndex
  | StudentsCreate
  | StudentsCourse nat nat
  | StudentsCoursework nat nat
  | StudentsGradeTask nat nat
  | StudentsGrade
  | StudentsEnrollmentCreate nat enrollment_post
  | StudentsStudentEnrollmentCreate nat nat enrollment_post
  | TeachersChecklist int int int
  | TeachersEditChecklist int int int

fun view_of :: "env \<Rightarrow> bodies \<Rightarrow> route \<Rightarrow> view" where
  "view_of E B StudentsIndex = students_index E"
| "view_of E B StudentsCreate = students_create B"
| "view_of E B (StudentsCourse uuid course_uuid) = students_course B uuid course_uuid"
| "view_of E B (StudentsCoursework uuid task_uuid) = students_coursework B uuid task_uuid"
| "view_of E B (StudentsGradeTask uuid task_uuid) = students_grade_task B uuid task_uuid"
| "view_of E B StudentsGrade = students_grade"
| "view_of E B (StudentsEnrollmentCreate year_uuid p) =
     students_enrollment_create year_uuid p"
| "view_of E B (StudentsStudentEnrollmentCreate uuid year_uuid p) =
     students_student_enrollment_create uuid year_uuid p"
| "view_of E B (TeachersChecklist y m dd) =
     (\<lambda>d request. no_messages (checklist E d request y m dd))"
| "view_of E B (TeachersEditChecklist y m dd) =
     (\<lambda>d request. no_messages (edit_checklist E d request y m dd))"

definition handle :: "env \<Rightarrow> bodies \<Rightarrow> route \<Rightarrow> view" where
  "handle E B r = authorize any_authorized (view_of E B r)"

text \<open>The student, the course task and the school year that the URL of a route names.\<close>

fun route_student :: "route \<Rightarrow> nat option" where
  "route_student (StudentsCourse uuid _) = Some uuid"
| "route_student (StudentsCoursework uuid _) = Some uuid"
| "route_student (StudentsGradeTask uuid _) = Some uuid"
| "route_student (StudentsStudentEnrollmentCreate uuid _ _) = Some uuid"
| "route_student _ = None"

fun route_course_task :: "route \<Rightarrow> nat option" where
  "route_course_task (StudentsCoursework _ task_uuid) = Some task_uuid"
| "route_course_task (StudentsGradeTask _ task_uuid) = Some task_uuid"
| "route_course_task _ = None"

fun route_school_year :: "route \<Rightarrow> nat option" where
  "route_school_year (StudentsEnrollmentCreate year_uuid _) = Some year_uuid"
| "route_school_year (StudentsStudentEnrollmentCreate _ year_uuid _) = Some year_uuid"
| "route_school_year _ = None"


text \<open>
  What a school owns of a database: its school years, grade levels and course tasks, its
  students, and the rows that hang from them.
\<close>

definition school_slice :: "nat \<Rightarrow> db \<Rightarrow> db" where
  "school_slice sch d =
     (let years = filter (\<lambda>y. sy_school y = sch) (school_years d);
          tasks = filter (\<lambda>t. ct_school t = sch) (course_tasks d);
          studs = filter (\<lambda>s. student_school s = sch) (students d)
      in \<lparr>school_years = years,
          grade_levels =
            filter (\<lambda>g. gl_school_year g \<in> set (map sy_id years)) (grade_levels d),
          course_tasks = tasks,
          graded_works =
            filter (\<lambda>g. gw_course_task g \<in> set (map ct_id tasks)) (graded_works d),
          students = studs,
          enrollments =
            filter (\<lambda>e. enrollment_student e \<in> set (map student_id studs)) (enrollments d),
          courseworks =
            filter (\<lambda>c. coursework_student c \<in> set (map student_id studs)) (courseworks d),
          grades = filter (\<lambda>r. grade_student r \<in> set (map student_id studs)) (grades d),
          checklists =
            filter (\<lambda>c. cl_school_year c \<in> set (map sy_id years)) (checklists d)\<rparr>)"

definition response_of :: "result \<Rightarrow> error + response" where
  "response_of r = (case r of Inl e \<Rightarrow> Inl e | Inr (resp, d, msgs) \<Rightarrow> Inr resp)"

section \<open>Sample data\<close>

text \<open>
  A user of school 1, whose only school year runs from 2019-09-01 to 2020-06-30; school 2
  has a school year from 2020-09-01 to 2021-06-30. The checklist of the first school year
  excludes course 7, and the scheduler plans courses 7 and 8 for student 1.
\<close>

definition mk_date :: "int \<Rightarrow> int \<Rightarrow> int \<Rightarrow> date" where
  "mk_date y m dd = \<lparr>date_year = y, date_month = m, date_day = dd\<rparr>"

definition demo_user :: user where
  "demo_user = \<lparr>user_id = 1, user_school = 1\<rparr>"

definition demo_request :: request where
  "demo_request = \<lparr>req_user = Some demo_user, req_method = ''GET'', req_POST = []\<rparr>"

definition demo_year :: school_year where
  "demo_year =
     \<lparr>sy_id = 1, sy_school = 1, sy_start_date = mk_date 2019 9 1,
      sy_end_date = mk_date 2020 6 30\<rparr>"

definition demo_db :: db where
  "demo_db =
     \<lparr>school_years =
        [demo_year,
         \<lparr>sy_id = 2, sy_school = 2, sy_start_date = mk_date 2020 9 1,
          sy_end_date = mk_date 2021 6 30\<rparr>],
      grade_levels = [], course_tasks = [], graded_works = [], students = [],
      enrollments = [], courseworks = [], grades = [],
      checklists = [\<lparr>cl_school_year = 1, cl_excluded_courses = [7]\<rparr>]\<rparr>"

definition demo_schedules :: "schedule list" where
  "demo_schedules =
     [\<lparr>sched_student = 1,
       sched_courses = [\<lparr>ci_course = 7, ci_tasks = [1]\<rparr>, \<lparr>ci_course = 8, ci_tasks = [2]\<rparr>]\<rparr>]"

definition demo_env :: env where
  "demo_env =
     \<lparr>get_local_today = (\<lambda>u. mk_date 2020 2 10),
      get_schedules = (\<lambda>sy today week. demo_schedules),
      form_is_valid = (\<lambda>post sy. 0 \<notin> set post),
      form_save = (\<lambda>post sy d.
        d\<lparr>checklists := \<lparr>cl_school_year = sy_id sy, cl_excluded_courses = post\<rparr>
              # filter (\<lambda>c. cl_school_year c \<noteq> sy_id sy) (checklists d)\<rparr>)\<rparr>"

text \<open>
  A store with two schools. Student 5 of school 1 has an enrolment and a piece of
  coursework; student 6 of school 2 has an enrolment.
\<close>

definition mk_enrollment :: "nat \<Rightarrow> nat \<Rightarrow> nat \<Rightarrow> enrollment" where
  "mk_enrollment i g s = \<lparr>enrollment_id = i, enrollment_grade_level = g, enrollment_student = s\<rparr>"

definition demo_store :: store where
  "demo_store =
     [(''schools.School'', [(''id'', IntCell 1)]),
      (''schools.School'', [(''id'', IntCell 2)]),
      (''students.Student'',
         [(''id'', IntCell 5), (''first_name'', TextCell ''Ada''),
          (''last_name'', TextCell ''Smith''), (''school'', IntCell 1)]),
      (''students.Student'',
         [(''id'', IntCell 6), (''first_name'', TextCell ''Bob''),
          (''last_name'', TextCell ''Jones''), (''school'', IntCell 2)]),
      (''students.Enrollment'', enrollment_row (mk_enrollment 9 3 5)),
      (''students.Enrollment'', enrollment_row (mk_enrollment 10 4 6)),
      (''students.Coursework'',
         [(''id'', IntCell 11), (''completed_date'', DateCell (mk_date 2020 2 10)),
          (''course_task'', IntCell 2), (''student'', IntCell 5)])]"


text \<open>
  A database of two schools for the student views. School 1 has the school year of the
  sample user with grade level 1, course task 1 with graded work 1, and student 5, who is
  enrolled and has completed task 1. School 2 has a school year of its own over the same
  dates with grade level 2, course task 2 with graded work 2, and student 6, enrolled,
  who has completed task 2.
\<close>

definition ada :: student where
  "ada = \<lparr>student_id = 5, first_name = ''Ada'', last_name = ''Smith'', student_school = 1\<rparr>"

definition bob :: student where
  "bob = \<lparr>student_id = 6, first_name = ''Bob'', last_name = ''Jones'', student_school = 2\<rparr>"

definition other_year :: school_year where
  "other_year =
     \<lparr>sy_id = 3, sy_school = 2, sy_start_date = mk_date 2019 9 1,
      sy_end_date = mk_date 2020 6 30\<rparr>"

definition school_db :: db where
  "school_db =
     \<lparr>school_years = [demo_year, other_year],
      grade_levels = [\<lparr>gl_id = 1, gl_school_year = 1\<rparr>, \<lparr>gl_id = 2, gl_school_year = 3\<rparr>],
      course_tasks = [\<lparr>ct_id = 1, ct_school = 1\<rparr>, \<lparr>ct_id = 2, ct_school = 2\<rparr>],
      graded_works = [\<lparr>gw_id = 1, gw_course_task = 1\<rparr>, \<lparr>gw_id = 2, gw_course_task = 2\<rparr>],
      students = [ada, bob],
      enrollments = [mk_enrollment 9 1 5, mk_enrollment 10 2 6],
      courseworks =
        [\<lparr>coursework_id = 11, completed_date = mk_date 2020 2 3,
          coursework_course_task = 1, coursework_student = 5\<rparr>,
         \<lparr>coursework_id = 12, completed_date = mk_date 2020 2 4,
          coursework_course_task = 2, coursework_student = 6\<rparr>],
      grades = [],
      checklists = []\<rparr>"

definition anonymous_request :: request where
  "anonymous_request = \<lparr>req_user = None, req_method = ''GET'', req_POST = []\<rparr>"


definition demo_bodies :: bodies where
  "demo_bodies =
     \<lparr>students_create = (\<lambda>d request. Inr (render ''students/student_form.html'' [], d, [])),
      course_body =
        (\<lambda>s course_uuid d request.
           Inr (render ''students/course.html'' [(''student'', StudentV s)], d, [])),
      coursework_post =
        (\<lambda>s t d request. Inr (redirect (resolve_url ''core:daily'' []), d, [])),
      grade_task_post =
        (\<lambda>s t g d request. Inr (redirect (resolve_url ''core:daily'' []), d, []))\<rparr>"

text \<open>The first sample database with a grade level for the school year of school 1.\<close>

definition graded_db :: db where
  "graded_db = demo_db\<lparr>grade_levels := [\<lparr>gl_id = 1, gl_school_year = 1\<rparr>]\<rparr>"

text \<open>What school 1 owns of the database of two schools.\<close>

definition own_db :: db where
  "own_db =
     \<lparr>school_years = [demo_year],
      grade_levels = [\<lparr>gl_id = 1, gl_school_year = 1\<rparr>],
      course_tasks = [\<lparr>ct_id = 1, ct_school = 1\<rparr>],
      graded_works = [\<lparr>gw_id = 1, gw_course_task = 1\<rparr>],
      students = [ada],
      enrollments = [mk_enrollment 9 1 5],
      courseworks =
        [\<lparr>coursework_id = 11, completed_date = mk_date 2020 2 3,
          coursework_course_task = 1, coursework_student = 5\<rparr>],
      grades = [],
      checklists = []\<rparr>"

section \<open>Properties of the teacher views\<close>

lemma get_year_for_None_iff:
  "get_year_for d u day = None \<longleftrightarrow>
     (\<forall>sy \<in> set (school_years d). sy_school sy = user_school u \<longrightarrow> \<not> covers sy day)"
  by (auto simp: get_year_for_def find_None_iff)

lemma demo_user_request: "req_user demo_request = Some demo_user"
  by (simp add: demo_request_def)

lemma date_new_2020_9_7: "date_new 2020 9 7 = Inr (mk_date 2020 9 7)"
  by (simp add: date_new_def valid_date_def days_in_month_def mk_date_def)

lemma demo_no_year_2020_9_7:
  "\<forall>sy \<in> set (school_years demo_db).
     sy_school sy = user_school demo_user \<longrightarrow> \<not> covers sy (mk_date 2020 9 7)"
  by (simp add: demo_db_def demo_year_def demo_user_def covers_def date_le_def mk_date_def)

text \<open>
  C8. For a requested week date covered by none of the user's school years, the checklist
  view renders its page with an empty list of schedules (status 200), while the edit view
  answers the same date with status 404.
\<close>

theorem missing_year_checklist_200_edit_404:
  assumes "req_user request = Some u"
    and "date_new year month day = Inr week_day"
    and "\<forall>sy \<in> set (school_years d). sy_school sy = user_school u \<longrightarrow> \<not> covers sy week_day"
  shows "checklist E d request year month day =
           Inr (Render ''teachers/checklist.html''
                  [(''schedules'', Schedules []), (''week'', WeekV (Week week_day))], d)
         \<and> status_code (Render ''teachers/checklist.html''
                  [(''schedules'', Schedules []), (''week'', WeekV (Week week_day))]) = 200
         \<and> edit_checklist E d request year month day = Inr (HttpResponseNotFound, d)
         \<and> status_code HttpResponseNotFound = 404"
proof -
  have none: "get_year_for d u week_day = None"
    using assms(3) by (simp add: get_year_for_None_iff)
  show ?thesis
    using assms(1,2) none by (simp add: checklist_def edit_checklist_def render_def)
qed

theorem missing_year_checklist_200_edit_404_witness:
  "checklist demo_env demo_db demo_request 2020 9 7 =
     Inr (Render ''teachers/checklist.html''
            [(''schedules'', Schedules []), (''week'', WeekV (Week (mk_date 2020 9 7)))], demo_db)
   \<and> edit_checklist demo_env demo_db demo_request 2020 9 7 = Inr (HttpResponseNotFound, demo_db)"
  using missing_year_checklist_200_edit_404
          [OF demo_user_request date_new_2020_9_7 demo_no_year_2020_9_7, of demo_env]
  by simp


lemma filter_schedules_excludes:
  assumes "for_school_year d sy = Some c"
    and "s \<in> set (filter_schedules d sy ss)"
    and "ci \<in> set (sched_courses s)"
  shows "ci_course ci \<notin> set (cl_excluded_courses c)"
  using assms by (auto simp: filter_schedules_def)

text \<open>
  C9. Checklist exclusions are applied only in the read view. The checklist view renders
  the schedules of the school year after \<^verbatim>\<open>Checklist.filter_schedules\<close>, so none of
  its schedules holds an excluded course; the edit view renders the schedules of
  \<^verbatim>\<open>school_year.get_schedules\<close> as they are, excluded courses included.
\<close>

theorem exclusions_only_in_read_view:
  assumes "req_user request = Some u"
    and "date_new year month day = Inr week_day"
    and "get_year_for d u week_day = Some sy"
    and "\<not> (req_method request = ''POST'' \<and> form_is_valid E (req_POST request) sy)"
  shows "checklist E d request year month day =
           Inr (Render ''teachers/checklist.html''
                  [(''schedules'', Schedules (filter_schedules d sy
                      (get_schedules E sy (get_local_today E u) (Week week_day)))),
                   (''week'', WeekV (Week week_day))], d)
         \<and> edit_checklist E d request year month day =
           Inr (Render ''teachers/edit_checklist.html''
                  [(''checklist'', ChecklistV (for_school_year d sy)),
                   (''schedules'', Schedules
                      (get_schedules E sy (get_local_today E u) (Week week_day))),
                   (''week'', WeekV (Week week_day))], d)
         \<and> (\<forall>c s ci. for_school_year d sy = Some c
               \<longrightarrow> s \<in> set (filter_schedules d sy
                      (get_schedules E sy (get_local_today E u) (Week week_day)))
               \<longrightarrow> ci \<in> set (sched_courses s)
               \<longrightarrow> ci_course ci \<notin> set (cl_excluded_courses c))"
proof -
  have a: "checklist E d request year month day =
           Inr (Render ''teachers/checklist.html''
                  [(''schedules'', Schedules (filter_schedules d sy
                      (get_schedules E sy (get_local_today E u) (Week week_day)))),
                   (''week'', WeekV (Week week_day))], d)"
    using assms(1-3) by (simp add: checklist_def render_def Let_def)
  have b: "edit_checklist E d request year month day =
           Inr (Render ''teachers/edit_checklist.html''
                  [(''checklist'', ChecklistV (for_school_year d sy)),
                   (''schedules'', Schedules
                      (get_schedules E sy (get_local_today E u) (Week week_day))),
                   (''week'', WeekV (Week week_day))], d)"
    using assms by (auto simp add: edit_checklist_def render_def Let_def)
  show ?thesis
    using a b filter_schedules_excludes by blast
qed

lemma date_new_2020_2_10: "date_new 2020 2 10 = Inr (mk_date 2020 2 10)"
  by (simp add: date_new_def valid_date_def days_in_month_def mk_date_def is_leap_def)

lemma demo_year_2020_2_10: "get_year_for demo_db demo_user (mk_date 2020 2 10) = Some demo_year"
  by (simp add: get_year_for_def demo_db_def demo_year_def demo_user_def covers_def
      date_le_def mk_date_def)

lemma demo_get_not_post:
  "\<not> (req_method demo_request = ''POST''
      \<and> form_is_valid demo_env (req_POST demo_request) demo_year)"
  by (simp add: demo_request_def)

theorem exclusions_only_in_read_view_witness:
  "checklist demo_env demo_db demo_request 2020 2 10 =
     Inr (Render ''teachers/checklist.html''
            [(''schedules'', Schedules
                [\<lparr>sched_student = 1, sched_courses = [\<lparr>ci_course = 8, ci_tasks = [2]\<rparr>]\<rparr>]),
             (''week'', WeekV (Week (mk_date 2020 2 10)))], demo_db)
   \<and> edit_checklist demo_env demo_db demo_request 2020 2 10 =
     Inr (Render ''teachers/edit_checklist.html''
            [(''checklist'', ChecklistV (Some \<lparr>cl_school_year = 1, cl_excluded_courses = [7]\<rparr>)),
             (''schedules'', Schedules
                [\<lparr>sched_student = 1,
                  sched_courses = [\<lparr>ci_course = 7, ci_tasks = [1]\<rparr>,
                                   \<lparr>ci_course = 8, ci_tasks = [2]\<rparr>]\<rparr>]),
             (''week'', WeekV (Week (mk_date 2020 2 10)))], demo_db)"
proof -
  have f: "for_school_year demo_db demo_year = Some \<lparr>cl_school_year = 1, cl_excluded_courses = [7]\<rparr>"
    by (simp add: for_school_year_def demo_db_def demo_year_def)
  have g: "filter_schedules demo_db demo_year demo_schedules =
             [\<lparr>sched_student = 1, sched_courses = [\<lparr>ci_course = 8, ci_tasks = [2]\<rparr>]\<rparr>]"
    by (simp add: filter_schedules_def f demo_schedules_def)
  have e: "get_schedules demo_env = (\<lambda>sy today week. demo_schedules)"
    by (simp add: demo_env_def)
  show ?thesis
    using exclusions_only_in_read_view
            [OF demo_user_request date_new_2020_2_10 demo_year_2020_2_10 demo_get_not_post]
    by (simp add: f g e) (simp add: demo_schedules_def)
qed

lemma days_in_month_le: "days_in_month y m \<le> 31"
  by (simp add: days_in_month_def)

text \<open>
  C10. Both teacher views are total only over valid calendar dates. For an authenticated
  request and a triple that \<^verbatim>\<open>datetime.date\<close> accepts, each handler returns a
  response; for a triple that is not a date (month 13 and day 32 never are) the
  constructor raises (\<^verbatim>\<open>ValueError\<close>, or \<^verbatim>\<open>OverflowError\<close> for an argument beyond
  a C \<^verbatim>\<open>int\<close>) and no response is produced.
\<close>

theorem handlers_total_only_on_valid_dates:
  assumes "req_user request = Some u"
  shows "(valid_date year month day \<longrightarrow>
            (\<exists>wd. date_new year month day = Inr wd)
            \<and> (\<exists>r d'. checklist E d request year month day = Inr (r, d'))
            \<and> (\<exists>r d'. edit_checklist E d request year month day = Inr (r, d')))
         \<and> (\<not> valid_date year month day \<longrightarrow>
            date_new year month day = Inl (date_error year month day)
            \<and> checklist E d request year month day = Inl (date_error year month day)
            \<and> edit_checklist E d request year month day = Inl (date_error year month day))
         \<and> \<not> valid_date year 13 day \<and> \<not> valid_date year month 32"
proof -
  have inv: "\<not> valid_date year 13 day \<and> \<not> valid_date year month 32"
    using days_in_month_le [of year month] by (auto simp: valid_date_def)
  have bad: "\<not> valid_date year month day \<Longrightarrow>
               date_new year month day = Inl (date_error year month day)
               \<and> checklist E d request year month day = Inl (date_error year month day)
               \<and> edit_checklist E d request year month day = Inl (date_error year month day)"
    using assms by (simp add: date_new_def checklist_def edit_checklist_def)
  have good: "valid_date year month day \<Longrightarrow>
            (\<exists>wd. date_new year month day = Inr wd)
            \<and> (\<exists>r d'. checklist E d request year month day = Inr (r, d'))
            \<and> (\<exists>r d'. edit_checklist E d request year month day = Inr (r, d'))"
    using assms
    by (simp add: date_new_def checklist_def edit_checklist_def Let_def split: option.splits)
  show ?thesis using inv bad good by blast
qed

theorem handlers_total_only_on_valid_dates_witness:
  "valid_date 2020 2 29
   \<and> (\<exists>r d'. checklist demo_env demo_db demo_request 2020 2 29 = Inr (r, d'))
   \<and> (\<exists>r d'. edit_checklist demo_env demo_db demo_request 2020 2 29 = Inr (r, d'))
   \<and> \<not> valid_date 2019 2 29
   \<and> checklist demo_env demo_db demo_request 2019 2 29 = Inl ValueError
   \<and> edit_checklist demo_env demo_db demo_request 2019 2 29 = Inl ValueError"
proof -
  have v: "valid_date 2020 2 29" 
    by (simp add: valid_date_def days_in_month_def is_leap_def)
  have n: "\<not> valid_date 2019 2 29"
    by (simp add: valid_date_def days_in_month_def is_leap_def)
  have e: "date_error 2019 2 29 = ValueError"
    by (simp add: date_error_def fits_c_int_def)
  show ?thesis
    using v n e
      handlers_total_only_on_valid_dates [OF demo_user_request, of 2020 2 29 demo_env demo_db]
      handlers_total_only_on_valid_dates [OF demo_user_request, of 2019 2 29 demo_env demo_db]
    by simp
qed

section \<open>Properties of migration 0001\<close>

lemma find_enrollment:
  "find_model migration_0001 ''Enrollment'' =
     Some \<lparr>cm_name = ''Enrollment'',
           cm_fields =
             [(''id'', auto_id),
              (''grade_level'', ForeignKey CASCADE ''schools.GradeLevel''),
              (''student'', ForeignKey CASCADE ''students.Student'')],
           cm_options = []\<rparr>"
  by (simp add: find_model_def migration_0001_def)

text \<open>
  C6. The Enrollment table of migration 0001 has no uniqueness constraint over student and
  grade level: its only unique column is the primary key and it has no
  \<^verbatim>\<open>unique_together\<close> option, so two rows with the same student and the same grade
  level (and different primary keys) are an admissible state of the table.
\<close>

theorem enrollment_not_unique_per_student_and_grade_level:
  "\<exists>m. find_model migration_0001 ''Enrollment'' = Some m
       \<and> unique_sets m = [[''id'']]
       \<and> map_of (cm_options m) ''unique_together'' = None
       \<and> (\<forall>i j g s. i \<noteq> j \<longrightarrow>
             admissible m [enrollment_row (mk_enrollment i g s),
                           enrollment_row (mk_enrollment j g s)])"
  by (simp add: find_enrollment unique_sets_def auto_id_def admissible_def project_def
      enrollment_row_def mk_enrollment_def)

theorem enrollment_not_unique_witness:
  "\<exists>m. find_model migration_0001 ''Enrollment'' = Some m
       \<and> admissible m [enrollment_row (mk_enrollment 1 3 4),
                       enrollment_row (mk_enrollment 2 3 4)]"
proof -
  have "(1::nat) \<noteq> 2" by simp
  then show ?thesis
    using enrollment_not_unique_per_student_and_grade_level by blast
qed

lemma collect_superset: "set acc \<subseteq> set (collect mg st acc)"
proof (induction mg st acc rule: collect.induct)
  case (1 mg st acc)
  show ?case
  proof (cases "pending mg st acc = []")
    case True
    then show ?thesis by (subst collect.simps) simp
  next
    case False
    then have "set (acc @ map key_of (pending mg st acc))
                 \<subseteq> set (collect mg st (acc @ map key_of (pending mg st acc)))"
      by (rule "1.IH")
    then show ?thesis using False by (subst collect.simps) auto
  qed
qed

lemma collect_closed:
  assumes "e \<in> set st" and "k \<in> set (collect mg st acc)" and "refers mg e k"
  shows "key_of e \<in> set (collect mg st acc)"
  using assms
proof (induction mg st acc rule: collect.induct)
  case (1 mg st acc)
  show ?case
  proof (cases "pending mg st acc = []")
    case True
    then have c: "collect mg st acc = acc" by (subst collect.simps) simp
    have "e \<notin> set (pending mg st acc)" using True by simp
    then have "key_of e \<in> set acc \<or> \<not> list_ex (refers mg e) acc"
      using "1.prems"(1) by (simp add: pending_def)
    moreover have "list_ex (refers mg e) acc"
      using "1.prems"(2,3) c by (auto simp: list_ex_iff)
    ultimately show ?thesis using c by auto
  next
    case False
    then have c: "collect mg st acc = collect mg st (acc @ map key_of (pending mg st acc))"
      by (subst collect.simps) simp
    show ?thesis
      using "1.IH" [OF False] "1.prems" c by simp
  qed
qed

lemma delete_removes_target: "e \<in> set (delete mg st k) \<Longrightarrow> key_of e \<noteq> k"
  using collect_superset [of "[k]" mg st] by (auto simp: delete_def)

lemma delete_leaves_no_reference:
  assumes "e \<in> set (delete mg st k)" and "k' \<in> set (collect mg st [k])"
  shows "\<not> refers mg e k'"
  using assms collect_closed [of e st k' mg "[k]"] by (auto simp: delete_def)

lemma delete_removes_dependents:
  assumes "refers mg e k"
  shows "e \<notin> set (delete mg st k)"
proof
  assume e: "e \<in> set (delete mg st k)"
  have "k \<in> set (collect mg st [k])"
    using collect_superset [of "[k]" mg st] by simp
  with e have "\<not> refers mg e k" by (rule delete_leaves_no_reference)
  with assms show False by simp
qed

lemma find_student:
  "find_model migration_0001 ''Student'' =
     Some \<lparr>cm_name = ''Student'',
           cm_fields =
             [(''id'', auto_id),
              (''first_name'', CharField 64),
              (''last_name'', CharField 64),
              (''school'', ForeignKey CASCADE ''schools.School'')],
           cm_options = []\<rparr>"
  by (simp add: find_model_def migration_0001_def)

lemma find_coursework:
  "find_model migration_0001 ''Coursework'' =
     Some \<lparr>cm_name = ''Coursework'',
           cm_fields =
             [(''id'', auto_id),
              (''completed_date'', DateField True),
              (''course_task'', ForeignKey CASCADE ''courses.CourseTask''),
              (''student'', ForeignKey CASCADE ''students.Student'')],
           cm_options = [(''verbose_name_plural'', TextOption ''coursework'')]\<rparr>"
  by (simp add: find_model_def migration_0001_def)

lemma fields_of_student:
  "fields_of migration_0001 ''students.Student'' =
     [(''id'', auto_id), (''first_name'', CharField 64), (''last_name'', CharField 64),
      (''school'', ForeignKey CASCADE ''schools.School'')]"
  by (simp add: fields_of_def migration_0001_def app_label_def)

lemma fields_of_enrollment:
  "fields_of migration_0001 ''students.Enrollment'' =
     [(''id'', auto_id), (''grade_level'', ForeignKey CASCADE ''schools.GradeLevel''),
      (''student'', ForeignKey CASCADE ''students.Student'')]"
  by (simp add: fields_of_def migration_0001_def app_label_def)

lemma fields_of_coursework:
  "fields_of migration_0001 ''students.Coursework'' =
     [(''id'', auto_id), (''completed_date'', DateField True),
      (''course_task'', ForeignKey CASCADE ''courses.CourseTask''),
      (''student'', ForeignKey CASCADE ''students.Student'')]"
  by (simp add: fields_of_def migration_0001_def app_label_def)

lemma refers_student:
  "refers migration_0001 (''students.Student'', r) k \<longleftrightarrow>
     snd k \<noteq> None \<and> fst k = ''schools.School'' \<and> map_of r ''school'' = snd k"
  by (auto simp: refers_def fields_of_student auto_id_def)

lemma refers_enrollment:
  "refers migration_0001 (''students.Enrollment'', r) k \<longleftrightarrow>
     snd k \<noteq> None
     \<and> (fst k = ''schools.GradeLevel'' \<and> map_of r ''grade_level'' = snd k
        \<or> fst k = ''students.Student'' \<and> map_of r ''student'' = snd k)"
  by (auto simp: refers_def fields_of_enrollment auto_id_def)

lemma refers_coursework:
  "refers migration_0001 (''students.Coursework'', r) k \<longleftrightarrow>
     snd k \<noteq> None
     \<and> (fst k = ''courses.CourseTask'' \<and> map_of r ''course_task'' = snd k
        \<or> fst k = ''students.Student'' \<and> map_of r ''student'' = snd k)"
  by (auto simp: refers_def fields_of_coursework auto_id_def)

text \<open>
  C7. The migration declares the Student, Enrollment and Coursework tables, in this order,
  with exactly the stated columns next to the automatic primary key, every foreign key
  cascading. Deleting a row therefore deletes the rows that point to it: no row that refers
  to the deleted row survives, and no surviving row refers to any row deleted with it.
\<close>

theorem migration_declares_schema_with_cascades:
  "map cm_name (operations migration_0001) = [''Student'', ''Enrollment'', ''Coursework'']
   \<and> (\<exists>m. find_model migration_0001 ''Student'' = Some m
          \<and> data_fields m =
              [(''first_name'', CharField 64), (''last_name'', CharField 64),
               (''school'', ForeignKey CASCADE ''schools.School'')])
   \<and> (\<exists>m. find_model migration_0001 ''Enrollment'' = Some m
          \<and> data_fields m =
              [(''grade_level'', ForeignKey CASCADE ''schools.GradeLevel''),
               (''student'', ForeignKey CASCADE ''students.Student'')])
   \<and> (\<exists>m. find_model migration_0001 ''Coursework'' = Some m
          \<and> data_fields m =
              [(''completed_date'', DateField True),
               (''course_task'', ForeignKey CASCADE ''courses.CourseTask''),
               (''student'', ForeignKey CASCADE ''students.Student'')])
   \<and> (\<forall>r k. refers migration_0001 (''students.Student'', r) k \<longleftrightarrow>
          snd k \<noteq> None \<and> fst k = ''schools.School'' \<and> map_of r ''school'' = snd k)
   \<and> (\<forall>r k. refers migration_0001 (''students.Enrollment'', r) k \<longleftrightarrow>
          snd k \<noteq> None
          \<and> (fst k = ''schools.GradeLevel'' \<and> map_of r ''grade_level'' = snd k
             \<or> fst k = ''students.Student'' \<and> map_of r ''student'' = snd k))
   \<and> (\<forall>r k. refers migration_0001 (''students.Coursework'', r) k \<longleftrightarrow>
          snd k \<noteq> None
          \<and> (fst k = ''courses.CourseTask'' \<and> map_of r ''course_task'' = snd k
             \<or> fst k = ''students.Student'' \<and> map_of r ''student'' = snd k))
   \<and> (\<forall>e k st. refers migration_0001 e k \<longrightarrow> e \<notin> set (delete migration_0001 st k))
   \<and> (\<forall>e k k' st. e \<in> set (delete migration_0001 st k)
          \<longrightarrow> k' \<in> set (collect migration_0001 st [k])
          \<longrightarrow> \<not> refers migration_0001 e k')"
proof -
  have names: "map cm_name (operations migration_0001) = [''Student'', ''Enrollment'', ''Coursework'']"
    by (simp add: migration_0001_def)
  have s: "\<exists>m. find_model migration_0001 ''Student'' = Some m
          \<and> data_fields m =
              [(''first_name'', CharField 64), (''last_name'', CharField 64),
               (''school'', ForeignKey CASCADE ''schools.School'')]"
    by (simp add: find_student data_fields_def auto_id_def)
  have e: "\<exists>m. find_model migration_0001 ''Enrollment'' = Some m
          \<and> data_fields m =
              [(''grade_level'', ForeignKey CASCADE ''schools.GradeLevel''),
               (''student'', ForeignKey CASCADE ''students.Student'')]"
    by (simp add: find_enrollment data_fields_def auto_id_def)
  have c: "\<exists>m. find_model migration_0001 ''Coursework'' = Some m
          \<and> data_fields m =
              [(''completed_date'', DateField True),
               (''course_task'', ForeignKey CASCADE ''courses.CourseTask''),
               (''student'', ForeignKey CASCADE ''students.Student'')]"
    by (simp add: find_coursework data_fields_def auto_id_def)
  have rs: "\<forall>r k. refers migration_0001 (''students.Student'', r) k \<longleftrightarrow>
          snd k \<noteq> None \<and> fst k = ''schools.School'' \<and> map_of r ''school'' = snd k"
    by (intro allI) (rule refers_student)
  have re: "\<forall>r k. refers migration_0001 (''students.Enrollment'', r) k \<longleftrightarrow>
          snd k \<noteq> None
          \<and> (fst k = ''schools.GradeLevel'' \<and> map_of r ''grade_level'' = snd k
             \<or> fst k = ''students.Student'' \<and> map_of r ''student'' = snd k)"
    by (intro allI) (rule refers_enrollment)
  have rc: "\<forall>r k. refers migration_0001 (''students.Coursework'', r) k \<longleftrightarrow>
          snd k \<noteq> None
          \<and> (fst k = ''courses.CourseTask'' \<and> map_of r ''course_task'' = snd k
             \<or> fst k = ''students.Student'' \<and> map_of r ''student'' = snd k)"
    by (intro allI) (rule refers_coursework)
  have d1: "\<forall>e k st. refers migration_0001 e k \<longrightarrow> e \<notin> set (delete migration_0001 st k)"
    using delete_removes_dependents by blast
  have d2: "\<forall>e k k' st. e \<in> set (delete migration_0001 st k)
          \<longrightarrow> k' \<in> set (collect migration_0001 st [k])
          \<longrightarrow> \<not> refers migration_0001 e k'"
    using delete_leaves_no_reference by blast
  from names s e c rs re rc d1 d2 show ?thesis
    by (intro conjI)
qed

lemma demo_delete_school:
  "delete migration_0001 demo_store (''schools.School'', Some (IntCell 1)) =
     [(''schools.School'', [(''id'', IntCell 2)]),
      (''students.Student'',
         [(''id'', IntCell 6), (''first_name'', TextCell ''Bob''),
          (''last_name'', TextCell ''Jones''), (''school'', IntCell 2)]),
      (''students.Enrollment'', enrollment_row (mk_enrollment 10 4 6))]"
  by code_simp

theorem migration_declares_schema_with_cascades_witness:
  "refers migration_0001 (''students.Enrollment'', enrollment_row (mk_enrollment 9 3 5))
     (''students.Student'', Some (IntCell 5))
   \<and> (''students.Enrollment'', enrollment_row (mk_enrollment 9 3 5))
       \<notin> set (delete migration_0001 demo_store (''students.Student'', Some (IntCell 5)))
   \<and> delete migration_0001 demo_store (''schools.School'', Some (IntCell 1)) =
       [(''schools.School'', [(''id'', IntCell 2)]),
        (''students.Student'',
           [(''id'', IntCell 6), (''first_name'', TextCell ''Bob''),
            (''last_name'', TextCell ''Jones''), (''school'', IntCell 2)]),
        (''students.Enrollment'', enrollment_row (mk_enrollment 10 4 6))]"
proof -
  have r: "refers migration_0001 (''students.Enrollment'', enrollment_row (mk_enrollment 9 3 5))
             (''students.Student'', Some (IntCell 5))"
    by (simp add: refers_enrollment enrollment_row_def mk_enrollment_def)
  show ?thesis
    using r demo_delete_school migration_declares_schema_with_cascades by blast
qed

section \<open>Properties of the login gate and the student views\<close>

lemma get_student_None_iff:
  "get_student d u uuid = None \<longleftrightarrow>
     (\<forall>s \<in> set (students d). student_id s = uuid \<longrightarrow> student_school s \<noteq> user_school u)"
  by (auto simp: get_student_def own_students_def find_None_iff)

lemma get_course_task_None_iff:
  "get_course_task d u uuid = None \<longleftrightarrow>
     (\<forall>t \<in> set (course_tasks d). ct_id t = uuid \<longrightarrow> ct_school t \<noteq> user_school u)"
  by (auto simp: get_course_task_def find_None_iff)

lemma get_school_year_None_iff:
  "get_school_year d u uuid = None \<longleftrightarrow>
     (\<forall>y \<in> set (school_years d). sy_id y = uuid \<longrightarrow> sy_school y \<noteq> user_school u)"
  by (auto simp: get_school_year_def find_None_iff)

lemma handle_authenticated:
  "req_user request = Some u \<Longrightarrow> handle E B r d request = view_of E B r d request"
  by (simp add: handle_def authorize_def any_authorized_def)

lemma missing_student_404:
  assumes "req_user request = Some u" and "route_student r = Some uuid"
    and "get_student d u uuid = None"
  shows "view_of E B r d request = Inr (HttpResponseNotFound, d, [])"
  using assms
  by (cases r)
    (simp_all add: students_course_def students_coursework_def students_grade_task_def
      students_student_enrollment_create_def)

lemma missing_course_task_404:
  assumes "req_user request = Some u" and "route_course_task r = Some task_uuid"
    and "get_course_task d u task_uuid = None"
  shows "view_of E B r d request = Inr (HttpResponseNotFound, d, [])"
  using assms
  by (cases r)
    (simp_all add: students_coursework_def students_grade_task_def split: option.splits)

lemma missing_school_year_404:
  assumes "req_user request = Some u" and "route_school_year r = Some year_uuid"
    and "get_school_year d u year_uuid = None"
  shows "view_of E B r d request = Inr (HttpResponseNotFound, d, [])"
  using assms
  by (cases r)
    (simp_all add: students_enrollment_create_def students_student_enrollment_create_def
      split: option.splits)

text \<open>
  C2, as stated, fails on the checklist view: the sample user asks for the week of
  2020-09-07, which none of the school years of school 1 covers, and the read view answers
  200 where the claim asks for 404.
\<close>

theorem checklist_renders_without_school_year:
  "get_year_for demo_db demo_user (mk_date 2020 9 7) = None
   \<and> (\<exists>r. checklist demo_env demo_db demo_request 2020 9 7 = Inr (r, demo_db)
          \<and> status_code r = 200 \<and> status_code r \<noteq> 404)"
proof -
  have none: "get_year_for demo_db demo_user (mk_date 2020 9 7) = None"
    using demo_no_year_2020_9_7 by (simp add: get_year_for_None_iff)
  then show ?thesis
    by (simp add: checklist_def demo_user_request date_new_2020_9_7 render_def)
qed

text \<open>
  C2, amended. For an authenticated request, every route of the student views whose URL
  names a student, a course task or a school year that is missing or belongs to another
  school is answered with 404, the database unchanged and whatever the method; and the edit
  view of the checklist answers 404 when no school year of the user covers the requested
  date. The read view of the checklist is the exception: for such a date it renders its
  page with no schedules.
\<close>

theorem unowned_resource_is_404_except_checklist:
  assumes "req_user request = Some u"
  shows "(\<forall>r uuid. route_student r = Some uuid \<longrightarrow>
            (\<forall>s \<in> set (students d). student_id s = uuid \<longrightarrow> student_school s \<noteq> user_school u) \<longrightarrow>
            handle E B r d request = Inr (HttpResponseNotFound, d, []))
         \<and> (\<forall>r task_uuid. route_course_task r = Some task_uuid \<longrightarrow>
            (\<forall>t \<in> set (course_tasks d). ct_id t = task_uuid \<longrightarrow> ct_school t \<noteq> user_school u) \<longrightarrow>
            handle E B r d request = Inr (HttpResponseNotFound, d, []))
         \<and> (\<forall>r year_uuid. route_school_year r = Some year_uuid \<longrightarrow>
            (\<forall>y \<in> set (school_years d). sy_id y = year_uuid \<longrightarrow> sy_school y \<noteq> user_school u) \<longrightarrow>
            handle E B r d request = Inr (HttpResponseNotFound, d, []))
         \<and> (\<forall>year month day week_day. date_new year month day = Inr week_day \<longrightarrow>
              (\<forall>y \<in> set (school_years d). sy_school y = user_school u \<longrightarrow> \<not> covers y week_day) \<longrightarrow>
              handle E B (TeachersEditChecklist year month day) d request
                = Inr (HttpResponseNotFound, d, [])
              \<and> edit_checklist E d request year month day = Inr (HttpResponseNotFound, d)
              \<and> checklist E d request year month day =
                  Inr (Render ''teachers/checklist.html''
                         [(''schedules'', Schedules []), (''week'', WeekV (Week week_day))], d))
         \<and> status_code HttpResponseNotFound = 404"
proof -
  have a: "\<forall>r uuid. route_student r = Some uuid \<longrightarrow> get_student d u uuid = None \<longrightarrow>
            handle E B r d request = Inr (HttpResponseNotFound, d, [])"
    using assms by (simp add: handle_authenticated missing_student_404)
  have b: "\<forall>r task_uuid. route_course_task r = Some task_uuid \<longrightarrow>
            get_course_task d u task_uuid = None \<longrightarrow>
            handle E B r d request = Inr (HttpResponseNotFound, d, [])"
    using assms by (simp add: handle_authenticated missing_course_task_404)
  have c: "\<forall>r year_uuid. route_school_year r = Some year_uuid \<longrightarrow>
            get_school_year d u year_uuid = None \<longrightarrow>
            handle E B r d request = Inr (HttpResponseNotFound, d, [])"
    using assms by (simp add: handle_authenticated missing_school_year_404)
  have e: "\<forall>year month day week_day. date_new year month day = Inr week_day \<longrightarrow>
              get_year_for d u week_day = None \<longrightarrow>
              handle E B (TeachersEditChecklist year month day) d request
                = Inr (HttpResponseNotFound, d, [])
              \<and> edit_checklist E d request year month day = Inr (HttpResponseNotFound, d)
              \<and> checklist E d request year month day =
                  Inr (Render ''teachers/checklist.html''
                         [(''schedules'', Schedules []), (''week'', WeekV (Week week_day))], d)"
    using assms
    by (simp add: handle_authenticated no_messages_def edit_checklist_def checklist_def
        render_def)
  have f: "status_code HttpResponseNotFound = 404" by simp
  from a b c e f show ?thesis
    unfolding get_student_None_iff get_course_task_None_iff get_school_year_None_iff
      get_year_for_None_iff
    by (intro conjI)
qed

theorem unowned_resource_is_404_except_checklist_witness:
  "handle demo_env demo_bodies (StudentsCourse 6 1) school_db demo_request
     = Inr (HttpResponseNotFound, school_db, [])
   \<and> handle demo_env demo_bodies (StudentsGradeTask 5 2) school_db demo_request
     = Inr (HttpResponseNotFound, school_db, [])
   \<and> handle demo_env demo_bodies
       (StudentsEnrollmentCreate 3 \<lparr>post_student = 6, post_grade_level = 2\<rparr>)
       school_db demo_request
     = Inr (HttpResponseNotFound, school_db, [])
   \<and> edit_checklist demo_env school_db demo_request 2020 9 7
       = Inr (HttpResponseNotFound, school_db)"
proof -
  have s: "\<forall>s \<in> set (students school_db). student_id s = 6 \<longrightarrow> student_school s \<noteq> user_school demo_user"
    by (simp add: school_db_def ada_def bob_def demo_user_def)
  have t: "\<forall>t \<in> set (course_tasks school_db). ct_id t = 2 \<longrightarrow> ct_school t \<noteq> user_school demo_user"
    by (simp add: school_db_def demo_user_def)
  have y: "\<forall>y \<in> set (school_years school_db). sy_id y = 3 \<longrightarrow> sy_school y \<noteq> user_school demo_user"
    by (simp add: school_db_def demo_year_def other_year_def demo_user_def)
  have c: "\<forall>y \<in> set (school_years school_db).
             sy_school y = user_school demo_user \<longrightarrow> \<not> covers y (mk_date 2020 9 7)"
    by (simp add: school_db_def demo_year_def other_year_def demo_user_def covers_def
        date_le_def mk_date_def)
  have rs: "route_student (StudentsCourse 6 1) = Some 6" by simp
  have rt: "route_course_task (StudentsGradeTask 5 2) = Some 2" by simp
  have ry: "route_school_year
              (StudentsEnrollmentCreate 3 \<lparr>post_student = 6, post_grade_level = 2\<rparr>) = Some 3"
    by simp
  note th = unowned_resource_is_404_except_checklist [OF demo_user_request,
        where d = school_db and E = demo_env and B = demo_bodies]
  show ?thesis
    using s t y c rs rt ry date_new_2020_9_7 th by blast
qed

text \<open>
  C4, as stated, fails where two of its states overlap: the school year of the sample user
  has no grade level and the school has no student, and the view redirects to the creation
  of a grade level, not to the student index.
\<close>

theorem no_students_and_no_grade_levels_redirects_to_grade_level_create:
  "own_students demo_db demo_user = []
   \<and> (\<forall>p. students_enrollment_create 1 p demo_db demo_request =
       Inr (Redirect (Resolved ''schools:grade_level_create'' [(''uuid'', IdArg 1)]), demo_db,
            [''You need to create a grade level for a student to enroll in.''])
     \<and> response_of (students_enrollment_create 1 p demo_db demo_request)
       \<noteq> Inr (Redirect (Resolved ''students:index'' [])))"
proof -
  have y: "get_school_year demo_db demo_user 1 = Some demo_year"
    by (simp add: get_school_year_def demo_db_def demo_year_def demo_user_def)
  have g: "year_grade_levels demo_db demo_year = []"
    by (simp add: year_grade_levels_def demo_db_def)
  have r: "\<And>p. students_enrollment_create 1 p demo_db demo_request =
       Inr (Redirect (Resolved ''schools:grade_level_create'' [(''uuid'', IdArg 1)]), demo_db,
            [''You need to create a grade level for a student to enroll in.''])"
    using y g
    by (simp add: students_enrollment_create_def demo_user_request redirect_def
        resolve_url_def demo_year_def)
  have o: "own_students demo_db demo_user = []"
    by (simp add: own_students_def demo_db_def)
  show ?thesis
    using o r by (simp add: response_of_def)
qed

text \<open>
  C4, amended. A GET of the enrolment page for a school year of the user redirects with a
  flash message, in this order: to the creation of a grade level when the year has none;
  otherwise to the student index when the school has no student; otherwise to the detail
  page of the school year when every student is enrolled.
\<close>

theorem enrollment_create_redirects_in_order:
  assumes "req_user request = Some u"
    and "get_school_year d u year_uuid = Some y"
  shows "(year_grade_levels d y = [] \<longrightarrow>
            students_enrollment_create year_uuid p d request =
              Inr (Redirect (Resolved ''schools:grade_level_create'' [(''uuid'', IdArg (sy_id y))]),
                   d, [''You need to create a grade level for a student to enroll in.'']))
         \<and> (year_grade_levels d y \<noteq> [] \<longrightarrow> own_students d u = [] \<longrightarrow>
            students_enrollment_create year_uuid p d request =
              Inr (Redirect (Resolved ''students:index'' []), d,
                   [''You need to add a student to enroll.'']))
         \<and> (year_grade_levels d y \<noteq> [] \<longrightarrow> own_students d u \<noteq> [] \<longrightarrow>
            enrollable_students d u y = [] \<longrightarrow>
            students_enrollment_create year_uuid p d request =
              Inr (Redirect (Resolved ''schools:school_year_detail'' [(''uuid'', IdArg (sy_id y))]),
                   d, [''All students are enrolled in the school year.'']))
         \<and> (\<forall>to. status_code (Redirect to) = 302)"
  using assms
  by (simp add: students_enrollment_create_def redirect_def resolve_url_def)

lemma demo_db_year: "get_school_year demo_db demo_user 1 = Some demo_year"
  by (simp add: get_school_year_def demo_db_def demo_year_def demo_user_def)

lemma graded_db_year: "get_school_year graded_db demo_user 1 = Some demo_year"
  by (simp add: get_school_year_def graded_db_def demo_db_def demo_year_def demo_user_def)

lemma school_db_year: "get_school_year school_db demo_user 1 = Some demo_year"
  by (simp add: get_school_year_def school_db_def demo_year_def demo_user_def)

theorem enrollment_create_redirects_in_order_witness:
  "students_enrollment_create 1 \<lparr>post_student = 5, post_grade_level = 1\<rparr> demo_db demo_request =
     Inr (Redirect (Resolved ''schools:grade_level_create'' [(''uuid'', IdArg 1)]), demo_db,
          [''You need to create a grade level for a student to enroll in.''])
   \<and> students_enrollment_create 1 \<lparr>post_student = 5, post_grade_level = 1\<rparr> graded_db
       demo_request =
     Inr (Redirect (Resolved ''students:index'' []), graded_db,
          [''You need to add a student to enroll.''])
   \<and> students_enrollment_create 1 \<lparr>post_student = 5, post_grade_level = 1\<rparr> school_db
       demo_request =
     Inr (Redirect (Resolved ''schools:school_year_detail'' [(''uuid'', IdArg 1)]), school_db,
          [''All students are enrolled in the school year.''])"
proof -
  have i: "sy_id demo_year = 1" by (simp add: demo_year_def)
  have g0: "year_grade_levels demo_db demo_year = []"
    by (simp add: year_grade_levels_def demo_db_def)
  have g1: "year_grade_levels graded_db demo_year \<noteq> []"
    by (simp add: year_grade_levels_def graded_db_def demo_year_def)
  have s1: "own_students graded_db demo_user = []"
    by (simp add: own_students_def graded_db_def demo_db_def)
  have g2: "year_grade_levels school_db demo_year \<noteq> []"
    by (simp add: year_grade_levels_def school_db_def demo_year_def)
  have s2: "own_students school_db demo_user \<noteq> []"
    by (simp add: own_students_def school_db_def ada_def demo_user_def)
  have e2: "enrollable_students school_db demo_user demo_year = []"
    by (simp add: enrollable_students_def own_students_def year_enrollment_def
        year_grade_levels_def school_db_def ada_def bob_def demo_user_def demo_year_def
        mk_enrollment_def)
  show ?thesis
    using i g0 g1 s1 g2 s2 e2
      enrollment_create_redirects_in_order [OF demo_user_request demo_db_year]
      enrollment_create_redirects_in_order [OF demo_user_request graded_db_year]
      enrollment_create_redirects_in_order [OF demo_user_request school_db_year]
    by simp
qed

text \<open>
  C3. Authentication is required on every route: an unauthenticated request is redirected
  to the login page, whatever the view behind the route is, and the database is unchanged.
\<close>

theorem anonymous_request_redirected_to_login:
  assumes "req_user request = None"
  shows "handle E B r d request = Inr (Redirect Login, d, [])
         \<and> status_code (Redirect Login) = 302
         \<and> (\<forall>v. authorize any_authorized v d request = Inr (Redirect Login, d, []))"
  using assms by (simp add: handle_def authorize_def redirect_def)

lemma anonymous_request_user: "req_user anonymous_request = None"
  by (simp add: anonymous_request_def)

theorem anonymous_request_redirected_to_login_witness:
  "handle demo_env demo_bodies (TeachersEditChecklist 2020 13 1) demo_db anonymous_request =
     Inr (Redirect Login, demo_db, [])
   \<and> handle demo_env demo_bodies StudentsIndex school_db anonymous_request =
     Inr (Redirect Login, school_db, [])
   \<and> handle demo_env demo_bodies (StudentsCoursework 5 1) school_db anonymous_request =
     Inr (Redirect Login, school_db, [])"
  using anonymous_request_redirected_to_login [OF anonymous_request_user]
  by simp



lemma enrollable_students_own:
  "enrollable_students d u y \<noteq> [] \<Longrightarrow> own_students d u \<noteq> []"
  by (auto simp: enrollable_students_def)

text \<open>
  A valid POST of the enrolment form saves the enrolment and redirects to the detail page
  of the school year, on both routes of the form.
\<close>

lemma valid_post_saves_enrollment:
  assumes "req_user request = Some u"
    and "req_method request = ''POST''"
    and "get_school_year d u year_uuid = Some y"
    and "enrollment_form_errors d u p = []"
  shows "(year_grade_levels d y \<noteq> [] \<longrightarrow> enrollable_students d u y \<noteq> [] \<longrightarrow>
            students_enrollment_create year_uuid p d request =
              Inr (Redirect (Resolved ''schools:school_year_detail''
                               [(''uuid'', IdArg (sy_id y))]), save_enrollment d p, []))
         \<and> (get_student d u uuid = Some s \<longrightarrow>
            students_student_enrollment_create uuid year_uuid p d request =
              Inr (Redirect (Resolved ''schools:school_year_detail''
                               [(''uuid'', IdArg (sy_id y))]), save_enrollment d p, []))"
  using assms enrollable_students_own [of d u y]
  by (auto simp: students_enrollment_create_def students_student_enrollment_create_def
      redirect_def resolve_url_def)





section \<open>Tenant isolation of the list views\<close>

lemma find_filter_same:
  "(\<And>x. x \<in> set xs \<Longrightarrow> P x \<Longrightarrow> Q x) \<Longrightarrow> find P (filter Q xs) = find P xs"
  by (induction xs) auto

lemma list_ex_filter_same:
  "(\<And>x. x \<in> set xs \<Longrightarrow> P x \<Longrightarrow> Q x) \<Longrightarrow> list_ex P (filter Q xs) = list_ex P xs"
  by (induction xs) auto

lemma filter_filter_same:
  "(\<And>x. x \<in> set xs \<Longrightarrow> P x \<Longrightarrow> Q x) \<Longrightarrow> filter P (filter Q xs) = filter P xs"
  by (induction xs) auto

lemma slice_own_students:
  "own_students (school_slice (user_school u) d) u = own_students d u"
  by (simp add: own_students_def school_slice_def)

lemma slice_get_year_for:
  "get_year_for (school_slice (user_school u) d) u day = get_year_for d u day"
  unfolding get_year_for_def school_slice_def
  by (simp add: Let_def) (rule find_filter_same, simp)

lemma slice_own_task_ids:
  "own_task_ids (school_slice (user_school u) d) u = own_task_ids d u"
  by (simp add: own_task_ids_def school_slice_def)

lemma get_year_for_own:
  assumes "get_year_for d u day = Some y"
  shows "y \<in> set (school_years d) \<and> sy_school y = user_school u"
  using assms by (auto simp: get_year_for_def find_Some_iff)

lemma slice_year_grade_levels:
  assumes "y \<in> set (school_years d)" and "sy_school y = user_school u"
  shows "year_grade_levels (school_slice (user_school u) d) y = year_grade_levels d y"
proof -
  have "filter (\<lambda>g. gl_school_year g = sy_id y)
          (filter (\<lambda>g. gl_school_year g
                     \<in> set (map sy_id (filter (\<lambda>y. sy_school y = user_school u) (school_years d))))
             (grade_levels d))
        = filter (\<lambda>g. gl_school_year g = sy_id y) (grade_levels d)"
    using assms by (intro filter_filter_same) auto
  then show ?thesis
    by (simp add: year_grade_levels_def school_slice_def)
qed

lemma slice_year_enrollment:
  assumes "y \<in> set (school_years d)" and "sy_school y = user_school u"
    and "s \<in> set (own_students d u)"
  shows "year_enrollment (school_slice (user_school u) d) y s = year_enrollment d y s"
proof -
  have g: "year_grade_levels (school_slice (user_school u) d) y = year_grade_levels d y"
    using assms(1,2) by (rule slice_year_grade_levels)
  have own: "student_id s
               \<in> set (map student_id (filter (\<lambda>s. student_school s = user_school u) (students d)))"
    using assms(3) by (auto simp: own_students_def)
  have e: "enrollments (school_slice (user_school u) d) =
             filter (\<lambda>e. enrollment_student e
                        \<in> set (map student_id
                                 (filter (\<lambda>s. student_school s = user_school u) (students d))))
               (enrollments d)"
    by (simp add: school_slice_def)
  show ?thesis
    unfolding year_enrollment_def g e
    using own by (intro find_filter_same) simp
qed

lemma slice_roster:
  assumes "sy = get_year_for d u day"
  shows "roster (school_slice (user_school u) d) u sy = roster d u sy"
proof (cases sy)
  case None
  then show ?thesis by (simp add: roster_def slice_own_students)
next
  case (Some y)
  then have y: "y \<in> set (school_years d)" "sy_school y = user_school u"
    using assms get_year_for_own [of d u day y] by simp_all
  show ?thesis
    using Some y by (simp add: roster_def slice_own_students slice_year_enrollment)
qed

lemma slice_has_coursework:
  assumes "s \<in> set (own_students d u)"
  shows "has_coursework (school_slice (user_school u) d) s g = has_coursework d s g"
proof -
  have own: "student_id s
               \<in> set (map student_id (filter (\<lambda>s. student_school s = user_school u) (students d)))"
    using assms by (auto simp: own_students_def)
  have c: "courseworks (school_slice (user_school u) d) =
             filter (\<lambda>c. coursework_student c
                        \<in> set (map student_id
                                 (filter (\<lambda>s. student_school s = user_school u) (students d))))
               (courseworks d)"
    by (simp add: school_slice_def)
  show ?thesis
    unfolding has_coursework_def c
    using own by (intro list_ex_filter_same) simp
qed

lemma slice_has_grade:
  assumes "s \<in> set (own_students d u)"
  shows "has_grade (school_slice (user_school u) d) s g = has_grade d s g"
proof -
  have own: "student_id s
               \<in> set (map student_id (filter (\<lambda>s. student_school s = user_school u) (students d)))"
    using assms by (auto simp: own_students_def)
  have c: "grades (school_slice (user_school u) d) =
             filter (\<lambda>r. grade_student r
                        \<in> set (map student_id
                                 (filter (\<lambda>s. student_school s = user_school u) (students d))))
               (grades d)"
    by (simp add: school_slice_def)
  show ?thesis
    unfolding has_grade_def c
    using own by (intro list_ex_filter_same) simp
qed

lemma slice_graded_works:
  "graded_works (school_slice (user_school u) d) =
     filter (\<lambda>g. gw_course_task g \<in> set (own_task_ids d u)) (graded_works d)"
  by (simp add: school_slice_def own_task_ids_def)

lemma slice_work_to_grade:
  "work_to_grade (school_slice (user_school u) d) u = work_to_grade d u"
proof -
  have "\<And>s. s \<in> set (own_students d u) \<Longrightarrow>
          filter (\<lambda>g. gw_course_task g \<in> set (own_task_ids d u)
                     \<and> has_coursework (school_slice (user_school u) d) s g
                     \<and> \<not> has_grade (school_slice (user_school u) d) s g)
            (filter (\<lambda>g. gw_course_task g \<in> set (own_task_ids d u)) (graded_works d))
          = filter (\<lambda>g. gw_course_task g \<in> set (own_task_ids d u)
                     \<and> has_coursework d s g \<and> \<not> has_grade d s g) (graded_works d)"
    by (simp add: slice_has_coursework slice_has_grade filter_filter_same)
  then show ?thesis
    by (simp add: work_to_grade_def slice_own_students slice_own_task_ids slice_graded_works)
qed

lemma slice_students_index:
  assumes "req_user request = Some u"
  shows "response_of (students_index E (school_slice (user_school u) d) request)
           = response_of (students_index E d request)"
  using assms slice_roster [OF refl, where d = d and u = u and day = "get_local_today E u"]
  by (simp add: students_index_def response_of_def slice_get_year_for Let_def)

lemma slice_students_grade:
  assumes "req_user request = Some u"
  shows "response_of (students_grade (school_slice (user_school u) d) request)
           = response_of (students_grade d request)"
  using assms by (simp add: students_grade_def response_of_def slice_work_to_grade Let_def)

lemma slice_add_student:
  assumes "students d = xs @ ys" and "student_school s' \<noteq> sch"
  shows "school_slice sch (d\<lparr>students := xs @ s' # ys\<rparr>) = school_slice sch d"
  using assms by (simp add: school_slice_def)

lemma slice_add_coursework:
  assumes "courseworks d = xs @ ys"
    and "coursework_student c \<notin> student_id ` set (own_students d u)"
  shows "school_slice (user_school u) (d\<lparr>courseworks := xs @ c # ys\<rparr>)
           = school_slice (user_school u) d"
  using assms by (simp add: school_slice_def own_students_def)

lemma slice_add_graded_work:
  assumes "graded_works d = xs @ ys" and "gw_course_task g \<notin> set (own_task_ids d u)"
  shows "school_slice (user_school u) (d\<lparr>graded_works := xs @ g # ys\<rparr>)
           = school_slice (user_school u) d"
  using assms by (simp add: school_slice_def own_task_ids_def)

text \<open>
  C1. Tenant isolation. For an authenticated user, the responses of the student index and
  of the grading view, and with them the roster and the work to grade, depend only on what
  the user's school owns: two databases with the same slice for that school give the same
  responses. Adding or removing, anywhere in its table, a student of another school, a piece
  of coursework of a student of another school or graded work for a task of another school
  leaves the slice unchanged.
\<close>

theorem list_views_depend_only_on_own_school:
  assumes "req_user request = Some u"
  shows "(school_slice (user_school u) d = school_slice (user_school u) d' \<longrightarrow>
            response_of (students_index E d request) = response_of (students_index E d' request)
            \<and> response_of (students_grade d request) = response_of (students_grade d' request)
            \<and> work_to_grade d u = work_to_grade d' u
            \<and> roster d u (get_year_for d u day) = roster d' u (get_year_for d' u day))
         \<and> (\<forall>xs ys s'. students d = xs @ ys \<longrightarrow> student_school s' \<noteq> user_school u \<longrightarrow>
              school_slice (user_school u) (d\<lparr>students := xs @ s' # ys\<rparr>)
                = school_slice (user_school u) d)
         \<and> (\<forall>xs ys c. courseworks d = xs @ ys \<longrightarrow>
              coursework_student c \<notin> student_id ` set (own_students d u) \<longrightarrow>
              school_slice (user_school u) (d\<lparr>courseworks := xs @ c # ys\<rparr>)
                = school_slice (user_school u) d)
         \<and> (\<forall>xs ys g. graded_works d = xs @ ys \<longrightarrow>
              gw_course_task g \<notin> set (own_task_ids d u) \<longrightarrow>
              school_slice (user_school u) (d\<lparr>graded_works := xs @ g # ys\<rparr>)
                = school_slice (user_school u) d)"
proof -
  have views: "school_slice (user_school u) d = school_slice (user_school u) d' \<Longrightarrow>
            response_of (students_index E d request) = response_of (students_index E d' request)
            \<and> response_of (students_grade d request) = response_of (students_grade d' request)
            \<and> work_to_grade d u = work_to_grade d' u
            \<and> roster d u (get_year_for d u day) = roster d' u (get_year_for d' u day)"
  proof -
    assume eq: "school_slice (user_school u) d = school_slice (user_school u) d'"
    have i: "response_of (students_index E d request) = response_of (students_index E d' request)"
      using slice_students_index [OF assms, where E = E and d = d]
        slice_students_index [OF assms, where E = E and d = d'] eq
      by simp
    have g: "response_of (students_grade d request) = response_of (students_grade d' request)"
      using slice_students_grade [OF assms, where d = d] slice_students_grade [OF assms, where d = d'] eq
      by simp
    have w: "work_to_grade d u = work_to_grade d' u"
      using slice_work_to_grade [where u = u and d = d] slice_work_to_grade [where u = u and d = d'] eq by simp
    have y: "get_year_for d u day = get_year_for d' u day"
      using slice_get_year_for [where u = u and d = d and day = day]
        slice_get_year_for [where u = u and d = d' and day = day] eq by simp
    have r: "roster d u (get_year_for d u day) = roster d' u (get_year_for d' u day)"
      using slice_roster [OF refl, where d = d and u = u and day = day]
        slice_roster [OF refl, where d = d' and u = u and day = day] eq y by simp
    show ?thesis using i g w r by simp
  qed
  have a: "\<forall>xs ys s'. students d = xs @ ys \<longrightarrow> student_school s' \<noteq> user_school u \<longrightarrow>
              school_slice (user_school u) (d\<lparr>students := xs @ s' # ys\<rparr>)
                = school_slice (user_school u) d"
    by (intro allI impI) (rule slice_add_student)
  have b: "\<forall>xs ys c. courseworks d = xs @ ys \<longrightarrow>
              coursework_student c \<notin> student_id ` set (own_students d u) \<longrightarrow>
              school_slice (user_school u) (d\<lparr>courseworks := xs @ c # ys\<rparr>)
                = school_slice (user_school u) d"
    by (intro allI impI) (rule slice_add_coursework)
  have c: "\<forall>xs ys g. graded_works d = xs @ ys \<longrightarrow>
              gw_course_task g \<notin> set (own_task_ids d u) \<longrightarrow>
              school_slice (user_school u) (d\<lparr>graded_works := xs @ g # ys\<rparr>)
                = school_slice (user_school u) d"
    by (intro allI impI) (rule slice_add_graded_work)
  have v: "school_slice (user_school u) d = school_slice (user_school u) d' \<longrightarrow>
            response_of (students_index E d request) = response_of (students_index E d' request)
            \<and> response_of (students_grade d request) = response_of (students_grade d' request)
            \<and> work_to_grade d u = work_to_grade d' u
            \<and> roster d u (get_year_for d u day) = roster d' u (get_year_for d' u day)"
    using views by (rule impI)
  from v a b c show ?thesis
    by (intro conjI)
qed

lemma slice_school_db: "school_slice (user_school demo_user) school_db = own_db"
  by (simp add: school_slice_def school_db_def own_db_def demo_user_def demo_year_def
      other_year_def ada_def bob_def mk_enrollment_def)

lemma slice_own_db: "school_slice (user_school demo_user) own_db = own_db"
  by (simp add: school_slice_def own_db_def demo_user_def demo_year_def ada_def
      mk_enrollment_def)

theorem list_views_depend_only_on_own_school_witness:
  "response_of (students_index demo_env school_db demo_request)
     = response_of (students_index demo_env own_db demo_request)
   \<and> response_of (students_grade school_db demo_request)
     = response_of (students_grade own_db demo_request)
   \<and> work_to_grade school_db demo_user = [(ada, [\<lparr>gw_id = 1, gw_course_task = 1\<rparr>])]
   \<and> roster school_db demo_user (get_year_for school_db demo_user (mk_date 2020 2 10))
     = [(ada, Some (mk_enrollment 9 1 5))]"
proof -
  have eq: "school_slice (user_school demo_user) school_db
              = school_slice (user_school demo_user) own_db"
    by (simp add: slice_school_db slice_own_db)
  have w: "work_to_grade own_db demo_user = [(ada, [\<lparr>gw_id = 1, gw_course_task = 1\<rparr>])]"
    by (simp add: work_to_grade_def own_students_def own_task_ids_def has_coursework_def
        has_grade_def own_db_def ada_def demo_user_def)
  have y: "get_year_for own_db demo_user (mk_date 2020 2 10) = Some demo_year"
    by (simp add: get_year_for_def own_db_def demo_year_def demo_user_def covers_def
        date_le_def mk_date_def)
  have r: "roster own_db demo_user (Some demo_year) = [(ada, Some (mk_enrollment 9 1 5))]"
    by (simp add: roster_def own_students_def year_enrollment_def year_grade_levels_def
        own_db_def ada_def demo_user_def demo_year_def mk_enrollment_def)
  show ?thesis
    using eq w y r
      list_views_depend_only_on_own_school [OF demo_user_request,
        where d = school_db and d' = own_db and E = demo_env and day = "mk_date 2020 2 10"]
    by simp
qed

end
